theory Spec2Isabelle
  imports Complex_Main
begin

section \<open>Errors\<close>

text \<open>
  The module raises \<open>Exception(kind, message)\<close> with the kind taken from a module-level
  string constant. The kind strings are kept as they are in the source; the message is not
  modelled. The other constructors are the built-in exceptions of the Python runtime that
  the modelled code can raise.
\<close>

definition error_stacks_length :: string where
  "error_stacks_length = ''DiffStacksLength''"

definition error_missing_file :: string where
  "error_missing_file = ''MissingFile''"

definition error_time_line_length :: string where
  "error_time_line_length = ''WrongTimeLineLength''"

definition error_outbounds :: string where
  "error_outbounds = ''OutOfBounds''"

definition error_required_tag :: string where
  "error_required_tag = ''RequiredTagMissing''"

definition error_invalid_bbox :: string where
  "error_invalid_bbox = ''InvalidBoundBox''"


datatype error =
    Exception string
  | ValueError
  | IndexError
  | KeyError
  | TypeError
  | AttributeError
  | OverflowError
  | FileNotFoundError

section \<open>Arrays of points\<close>

text \<open>
  The arrays handled by \<open>Mygdal\<close> hold points with two coordinates: either one point
  (shape \<open>(2,)\<close>, as built by \<open>ord_pair\<close>) or a sequence of points (shape \<open>(n, 2)\<close>).
  \<open>numpy.array([])\<close> is \<open>Rows []\<close>. Arithmetic between a point and an array is
  element-wise per axis (numpy broadcasting). Coordinates of geolocations are float64 in
  the source; they are modelled as exact reals, so the rounding of float64 is not part of
  the model. Pixel indices are integers.
\<close>

datatype 'a ndarray = Row "'a \<times> 'a" | Rows "('a \<times> 'a) list"

definition ord_pair :: "'a \<Rightarrow> 'a \<Rightarrow> 'a \<times> 'a" where
  "ord_pair i j = (i, j)"

fun len :: "'a ndarray \<Rightarrow> nat" where
  "len (Row p) = 2"
| "len (Rows ps) = length ps"

fun map_points :: "('a \<times> 'a \<Rightarrow> 'b \<times> 'b) \<Rightarrow> 'a ndarray \<Rightarrow> 'b ndarray" where
  "map_points f (Row p) = Row (f p)"
| "map_points f (Rows ps) = Rows (map f ps)"

fun elements :: "'a ndarray \<Rightarrow> 'a list" where
  "elements (Row (x, y)) = [x, y]"
| "elements (Rows ps) = concat (map (\<lambda>(x, y). [x, y]) ps)"

definition numpy_any :: "bool ndarray \<Rightarrow> bool" where
  "numpy_any a = list_ex (\<lambda>b. b) (elements a)"

section \<open>The raster dataset and its geo-reference\<close>

text \<open>
  The GDAL dataset is an external collaborator. It is a record of what the module reads
  from it: projection, size, the six coefficients of the geotransform, the number of
  bands, the no-data value of band \<open>i\<close> (bands are numbered from 1; \<open>None\<close> when the band
  defines none), the value of each band at a pixel (what \<open>ReadAsArray(x, y, 1, 1)\<close>
  delivers, band by band), and the result of projecting points given in another reference
  system into the system of this raster (\<open>TransformPoints\<close>, three coordinates per point).
\<close>

record dataset =
  ProjectionRef :: string
  RasterXSize :: int
  RasterYSize :: int
  GeoTransform :: "real list"
  RasterCount :: nat
  NoDataValue :: "nat \<Rightarrow> real option"
  BandValue :: "nat \<Rightarrow> int \<Rightarrow> int \<Rightarrow> real"
  TransformPoints :: "string \<Rightarrow> (real \<times> real) list \<Rightarrow> (real \<times> real \<times> real) list"

definition GT_X :: nat where "GT_X = 0"
definition GT_Y :: nat where "GT_Y = 1"
definition GT_X_UL :: nat where "GT_X_UL = 0"
definition GT_X_RES :: nat where "GT_X_RES = 1"
definition GT_X_SKEW :: nat where "GT_X_SKEW = 2"
definition GT_Y_UL :: nat where "GT_Y_UL = 3"
definition GT_Y_SKEW :: nat where "GT_Y_SKEW = 4"
definition GT_Y_RES :: nat where "GT_Y_RES = 5"

record mygdal =
  dataset :: dataset
  srs_wkt :: string
  width :: int
  height :: int
  geo_resolution :: "real \<times> real"
  geo_skew :: "real \<times> real"
  geo_ul :: "real \<times> real"
  geo_lr :: "real \<times> real"
  values_nodata :: "real option list"

text \<open>Element-wise arithmetic on points.\<close>

fun vadd :: "real \<times> real \<Rightarrow> real \<times> real \<Rightarrow> real \<times> real" where
  "vadd (a, b) (c, d) = (a + c, b + d)"

fun vsub :: "real \<times> real \<Rightarrow> real \<times> real \<Rightarrow> real \<times> real" where
  "vsub (a, b) (c, d) = (a - c, b - d)"

fun vmul :: "real \<times> real \<Rightarrow> real \<times> real \<Rightarrow> real \<times> real" where
  "vmul (a, b) (c, d) = (a * c, b * d)"

fun vsign :: "real \<times> real \<Rightarrow> real \<times> real" where
  "vsign (a, b) = (sgn a, sgn b)"

fun to_real :: "int \<times> int \<Rightarrow> real \<times> real" where
  "to_real (x, y) = (of_int x, of_int y)"

text \<open>
  \<open>pixels_to_geolocs\<close>: \<open>geo_ul + geo_resolution * pixels + geo_skew * pixels\<close> when the
  argument is not \<open>None\<close> and has a non-zero \<open>len\<close>, the empty array otherwise.
\<close>

definition pixels_to_geolocs_of ::
  "real \<times> real \<Rightarrow> real \<times> real \<Rightarrow> real \<times> real \<Rightarrow> int ndarray option \<Rightarrow> real ndarray" where
  "pixels_to_geolocs_of ul res skew pixels =
     (case pixels of
        None \<Rightarrow> Rows []
      | Some ps \<Rightarrow>
          if len ps \<noteq> 0
          then map_points (\<lambda>p. vadd (vadd ul (vmul res (to_real p))) (vmul skew (to_real p))) ps
          else Rows [])"

definition pixels_to_geolocs :: "mygdal \<Rightarrow> int ndarray option \<Rightarrow> real ndarray" where
  "pixels_to_geolocs m pixels =
     pixels_to_geolocs_of (geo_ul m) (geo_resolution m) (geo_skew m) pixels"

text \<open>
  \<open>numpy.floor_divide\<close> on floats: the floor of the quotient; a zero divisor gives an
  infinity or a NaN (the warnings are silenced by \<open>errstate\<close>), which is \<open>None\<close> here.
  The source then overwrites every non-finite entry with zero.
\<close>

definition floor_divide :: "real \<Rightarrow> real \<Rightarrow> int option" where
  "floor_divide a b = (if b = 0 then None else Some \<lfloor>a / b\<rfloor>)"

definition zero_nonfinite :: "int option \<Rightarrow> int" where
  "zero_nonfinite q = (case q of None \<Rightarrow> 0 | Some n \<Rightarrow> n)"

fun geoloc_to_pixel :: "real \<times> real \<Rightarrow> real \<times> real \<Rightarrow> real \<times> real \<Rightarrow> real \<times> real \<Rightarrow> int \<times> int" where
  "geoloc_to_pixel (ulx, uly) (rx, ry) (sx, sy) (gx, gy) =
     (zero_nonfinite (floor_divide (gx - ulx) rx) + zero_nonfinite (floor_divide (gx - ulx) sx),
      zero_nonfinite (floor_divide (gy - uly) ry) + zero_nonfinite (floor_divide (gy - uly) sy))"

definition geolocs_to_pixels :: "mygdal \<Rightarrow> real ndarray option \<Rightarrow> int ndarray" where
  "geolocs_to_pixels m geolocs =
     (case geolocs of
        None \<Rightarrow> Rows []
      | Some gs \<Rightarrow>
          if len gs \<noteq> 0
          then map_points (geoloc_to_pixel (geo_ul m) (geo_resolution m) (geo_skew m)) gs
          else Rows [])"

text \<open>
  The constructor: \<open>gdal.Open\<close> is the first argument (it yields \<open>None\<close> for a file that
  cannot be opened). The skew pair takes the Y-skew coefficient first and the X-skew
  coefficient second.
\<close>

definition Mygdal_init :: "(string \<Rightarrow> dataset option) \<Rightarrow> string \<Rightarrow> error + mygdal" where
  "Mygdal_init gdal_Open filename =
     (case gdal_Open filename of
        None \<Rightarrow> Inl (Exception error_missing_file)
      | Some ds \<Rightarrow>
          let gt = GeoTransform ds;
              res = ord_pair (gt ! GT_X_RES) (gt ! GT_Y_RES);
              skew = ord_pair (gt ! GT_Y_SKEW) (gt ! GT_X_SKEW);
              ul = ord_pair (gt ! GT_X_UL) (gt ! GT_Y_UL);
              lr = (case pixels_to_geolocs_of ul res skew
                           (Some (Row (ord_pair (RasterXSize ds - 1) (RasterYSize ds - 1)))) of
                      Row p \<Rightarrow> p | Rows ps \<Rightarrow> ul)
          in Inr \<lparr> dataset = ds, srs_wkt = ProjectionRef ds,
                   width = RasterXSize ds, height = RasterYSize ds,
                   geo_resolution = res, geo_skew = skew, geo_ul = ul, geo_lr = lr,
                   values_nodata = map (NoDataValue ds) [1 ..< RasterCount ds + 1] \<rparr>)"

text \<open>
  The two bound checks: a coordinate counts when it is below the lower bound and, at the
  same time, above the upper bound (the source multiplies the two comparisons).
\<close>

fun both_sides :: "'a::linorder \<times> 'a \<Rightarrow> 'a \<times> 'a \<Rightarrow> 'a \<times> 'a \<Rightarrow> bool \<times> bool" where
  "both_sides (lox, loy) (hix, hiy) (x, y) = (x < lox \<and> x > hix, y < loy \<and> y > hiy)"

definition are_valid_geolocs :: "mygdal \<Rightarrow> real ndarray \<Rightarrow> bool" where
  "are_valid_geolocs m geolocs =
     numpy_any (map_points (both_sides (vmul (geo_ul m) (vsign (geo_resolution m)))
                                       (vmul (geo_lr m) (vsign (geo_resolution m)))) geolocs)"

definition are_valid_pixels :: "mygdal \<Rightarrow> int ndarray \<Rightarrow> bool" where
  "are_valid_pixels m pixels =
     numpy_any (map_points (both_sides (0, 0) (width m, height m)) pixels)"

section \<open>Python strings\<close>

text \<open>
  The string methods the parser uses, on ASCII text: \<open>strip()\<close> removes white space at
  both ends, \<open>strip(chars)\<close> removes the characters of \<open>chars\<close> at both ends,
  \<open>lower()\<close> maps the capital letters, \<open>find(c, start)\<close> gives the first position of
  \<open>c\<close> at or after \<open>start\<close> (\<open>None\<close> is Python's \<open>-1\<close>), \<open>split(sep)\<close> cuts at every
  occurrence of \<open>sep\<close>, from left to right, and raises \<open>ValueError\<close> for an empty
  separator, \<open>replace(old, new)\<close> substitutes every occurrence, from left to right.
\<close>

definition is_space :: "char \<Rightarrow> bool" where
  "is_space c = (c \<in> set [CHR '' '', CHR 0x09, CHR 0x0A, CHR 0x0B, CHR 0x0C, CHR 0x0D,
                           CHR 0x1C, CHR 0x1D, CHR 0x1E, CHR 0x1F])"

definition strip_with :: "(char \<Rightarrow> bool) \<Rightarrow> string \<Rightarrow> string" where
  "strip_with P s = rev (dropWhile P (rev (dropWhile P s)))"

definition py_strip :: "string \<Rightarrow> string" where
  "py_strip s = strip_with is_space s"

definition py_strip_chars :: "string \<Rightarrow> string \<Rightarrow> string" where
  "py_strip_chars s chars = strip_with (\<lambda>c. c \<in> set chars) s"

definition lower_char :: "char \<Rightarrow> char" where
  "lower_char c =
     (case map_of (zip ''ABCDEFGHIJKLMNOPQRSTUVWXYZ'' ''abcdefghijklmnopqrstuvwxyz'') c of
        None \<Rightarrow> c | Some l \<Rightarrow> l)"

definition py_lower :: "string \<Rightarrow> string" where
  "py_lower s = map lower_char s"

fun find_at :: "char \<Rightarrow> nat \<Rightarrow> string \<Rightarrow> nat option" where
  "find_at c i [] = None"
| "find_at c i (x # xs) = (if x = c then Some i else find_at c (Suc i) xs)"

definition py_find :: "string \<Rightarrow> char \<Rightarrow> nat \<Rightarrow> nat option" where
  "py_find s c start = find_at c start (drop start s)"

fun is_prefix :: "string \<Rightarrow> string \<Rightarrow> bool" where
  "is_prefix [] s = True"
| "is_prefix (p # ps) [] = False"
| "is_prefix (p # ps) (c # cs) = (p = c \<and> is_prefix ps cs)"

function split_go :: "string \<Rightarrow> string \<Rightarrow> string \<Rightarrow> string list" where
  "split_go sep cur [] = [rev cur]"
| "split_go sep cur (c # cs) =
     (if sep \<noteq> [] \<and> is_prefix sep (c # cs)
      then rev cur # split_go sep [] (drop (length sep) (c # cs))
      else split_go sep (c # cur) cs)"
  by pat_completeness auto
termination
  by (relation "measure (\<lambda>(sep, cur, s). length s)") auto

definition py_split :: "string \<Rightarrow> string \<Rightarrow> error + string list" where
  "py_split s sep = (if sep = [] then Inl ValueError else Inr (split_go sep [] s))"

function replace_go :: "string \<Rightarrow> string \<Rightarrow> string \<Rightarrow> string" where
  "replace_go old new [] = []"
| "replace_go old new (c # cs) =
     (if old \<noteq> [] \<and> is_prefix old (c # cs)
      then new @ replace_go old new (drop (length old) (c # cs))
      else c # replace_go old new cs)"
  by pat_completeness auto
termination
  by (relation "measure (\<lambda>(old, new, s). length s)") auto

definition py_replace :: "string \<Rightarrow> string \<Rightarrow> string \<Rightarrow> string" where
  "py_replace s old new =
     (if old = [] then new @ concat (map (\<lambda>c. c # new) s) else replace_go old new s)"

subsection \<open>Numbers from text\<close>

text \<open>
  \<open>int(s)\<close> and \<open>float(s)\<close> on a string: white space around the literal is ignored, a
  sign may lead, and single underscores may separate digits. A literal that does not
  parse raises \<open>ValueError\<close>. \<open>float\<close> reads a decimal literal with an optional fraction
  and an optional exponent; its value is the exact real denoted (float64 rounding is not
  modelled). The literals \<open>inf\<close>, \<open>infinity\<close> and \<open>nan\<close> denote floats that are no real
  numbers; they are not part of the model and are rejected here.
\<close>

definition digit_val :: "char \<Rightarrow> nat option" where
  "digit_val c = map_of (zip ''0123456789'' [0, 1, 2, 3, 4, 5, 6, 7, 8, 9]) c"

definition is_digit :: "char \<Rightarrow> bool" where
  "is_digit c = (digit_val c \<noteq> None)"

fun digits_ok :: "string \<Rightarrow> bool" where
  "digits_ok [] = False"
| "digits_ok [c] = is_digit c"
| "digits_ok (c # d # cs) =
     (is_digit c \<and> (if d = CHR ''_'' then digits_ok cs else digits_ok (d # cs)))"

definition digits_value :: "string \<Rightarrow> nat" where
  "digits_value s =
     foldl (\<lambda>acc c. case digit_val c of None \<Rightarrow> acc | Some d \<Rightarrow> 10 * acc + d) 0 s"

definition split_sign :: "string \<Rightarrow> bool \<times> string" where
  "split_sign s =
     (case s of
        [] \<Rightarrow> (False, [])
      | c # cs \<Rightarrow> if c = CHR ''-'' then (True, cs) else if c = CHR ''+'' then (False, cs)
                  else (False, s))"

definition py_int :: "string \<Rightarrow> error + int" where
  "py_int s =
     (let (neg, body) = split_sign (py_strip s)
      in if digits_ok body
         then Inr (if neg then - int (digits_value body) else int (digits_value body))
         else Inl ValueError)"

definition split_at_char :: "(char \<Rightarrow> bool) \<Rightarrow> string \<Rightarrow> string \<times> string option" where
  "split_at_char P s =
     (case dropWhile (\<lambda>c. \<not> P c) s of
        [] \<Rightarrow> (s, None)
      | c # rest \<Rightarrow> (takeWhile (\<lambda>c. \<not> P c) s, Some rest))"

definition scale10 :: "real \<Rightarrow> int \<Rightarrow> real" where
  "scale10 m e = (if 0 \<le> e then m * 10 ^ nat e else m / 10 ^ nat (- e))"

definition py_float :: "string \<Rightarrow> error + real" where
  "py_float s =
     (let (neg, body) = split_sign (py_strip s);
          (mant, expo) = split_at_char (\<lambda>c. c = CHR ''e'' \<or> c = CHR ''E'') body;
          (ip, fp) = split_at_char (\<lambda>c. c = CHR ''.'') mant;
          fpart = (case fp of None \<Rightarrow> [] | Some f \<Rightarrow> f);
          mant_ok = ((ip = [] \<or> digits_ok ip) \<and> (fpart = [] \<or> digits_ok fpart)
                     \<and> (ip \<noteq> [] \<or> fpart \<noteq> []));
          fdigits = filter is_digit fpart;
          m = real (digits_value (ip @ fdigits));
          e = (case expo of
                 None \<Rightarrow> Some 0
               | Some t \<Rightarrow> (let (eneg, ebody) = split_sign t
                            in if digits_ok ebody
                               then Some (if eneg then - int (digits_value ebody)
                                          else int (digits_value ebody))
                               else None))
      in case e of
           None \<Rightarrow> Inl ValueError
         | Some ex \<Rightarrow>
             if mant_ok
             then Inr ((if neg then - 1 else 1) * scale10 m (ex - int (length fdigits)))
             else Inl ValueError)"

text \<open>
  \<open>to_float\<close>: when the decimal separator is not a point, the source calls
  \<open>value.replace(decimal, '.')\<close> and drops the string it returns; \<open>float\<close> is then applied
  to \<open>value\<close> itself.
\<close>

definition to_float :: "string \<Rightarrow> string \<Rightarrow> error + real" where
  "to_float v decimal =
     (let dropped = (if decimal \<noteq> ''.'' then Some (py_replace v decimal ''.'') else None)
      in py_float v)"

section \<open>Dates\<close>

text \<open>
  \<open>datetime.datetime\<close> of the Python library, in the proleptic Gregorian calendar. The
  hour, minute, second and microsecond of a value are held together as the microsecond of
  the day, \<open>usec\<close>. The conversion between a date and its ordinal (day 1 is 0001-01-01)
  follows the library's \<open>_ymd2ord\<close> and \<open>_ord2ymd\<close>.
\<close>

record datetime =
  year :: int
  month :: int
  day :: int
  usec :: int

definition MAXORDINAL :: int where
  "MAXORDINAL = 3652059"

definition USEC_PER_DAY :: int where
  "USEC_PER_DAY = 86400000000"

definition is_leap :: "int \<Rightarrow> bool" where
  "is_leap y = (y mod 4 = 0 \<and> (y mod 100 \<noteq> 0 \<or> y mod 400 = 0))"

definition DAYS_IN_MONTH :: "int list" where
  "DAYS_IN_MONTH = [- 1, 31, 28, 31, 30, 31, 30, 31, 31, 30, 31, 30, 31]"

definition DAYS_BEFORE_MONTH :: "int list" where
  "DAYS_BEFORE_MONTH = [- 1, 0, 31, 59, 90, 120, 151, 181, 212, 243, 273, 304, 334]"

definition days_before_year :: "int \<Rightarrow> int" where
  "days_before_year y =
     (let z = y - 1 in z * 365 + z div 4 - z div 100 + z div 400)"

definition days_before_month :: "int \<Rightarrow> int \<Rightarrow> int" where
  "days_before_month y m =
     DAYS_BEFORE_MONTH ! nat m + (if m > 2 \<and> is_leap y then 1 else 0)"

definition ymd2ord :: "int \<Rightarrow> int \<Rightarrow> int \<Rightarrow> int" where
  "ymd2ord y m d = days_before_year y + days_before_month y m + d"

definition ord2ymd :: "int \<Rightarrow> int \<times> int \<times> int" where
  "ord2ymd ordinal =
     (let n0 = ordinal - 1;
          n400 = n0 div 146097; n1' = n0 mod 146097;
          n100 = n1' div 36524; n2' = n1' mod 36524;
          n4 = n2' div 1461; n3' = n2' mod 1461;
          n1 = n3' div 365; n = n3' mod 365;
          y = n400 * 400 + 1 + n100 * 100 + n4 * 4 + n1
      in if n1 = 4 \<or> n100 = 4 then (y - 1, 12, 31)
         else
           let leapyear = (n1 = 3 \<and> (n4 \<noteq> 24 \<or> n100 = 3));
               m = (n + 50) div 32;
               preceding = DAYS_BEFORE_MONTH ! nat m + (if m > 2 \<and> leapyear then 1 else 0)
           in if preceding > n
              then (y, m - 1,
                    n - (preceding - (DAYS_IN_MONTH ! nat (m - 1)
                                      + (if m - 1 = 2 \<and> leapyear then 1 else 0))) + 1)
              else (y, m, n - preceding + 1))"

definition toordinal :: "datetime \<Rightarrow> int" where
  "toordinal dt = ymd2ord (year dt) (month dt) (day dt)"

text \<open>
  \<open>timedelta(days=x)\<close> for a float \<open>x\<close>: the duration in microseconds, rounded half to
  even; a duration of more than 999999999 days raises \<open>OverflowError\<close>.
\<close>

definition round_half_even :: "real \<Rightarrow> int" where
  "round_half_even x =
     (let f = \<lfloor>x\<rfloor>; r = x - of_int f
      in if r < 1 / 2 then f else if r > 1 / 2 then f + 1 else if even f then f else f + 1)"

definition timedelta_days :: "real \<Rightarrow> error + int" where
  "timedelta_days x =
     (let us = round_half_even (x * of_int USEC_PER_DAY)
      in if \<bar>us div USEC_PER_DAY\<bar> > 999999999 then Inl OverflowError else Inr us)"

text \<open>
  \<open>datetime + timedelta\<close>: the sum, or \<open>OverflowError\<close> when the day leaves the range of
  ordinals \<open>1 .. MAXORDINAL\<close>.
\<close>

definition datetime_add :: "datetime \<Rightarrow> int \<Rightarrow> error + datetime" where
  "datetime_add dt delta =
     (let total = usec dt + delta;
          days = toordinal dt + total div USEC_PER_DAY
      in if 0 < days \<and> days \<le> MAXORDINAL
         then (case ord2ymd days of
                 (y, m, d) \<Rightarrow> Inr \<lparr> year = y, month = m, day = d, usec = total mod USEC_PER_DAY \<rparr>)
         else Inl OverflowError)"

text \<open>Comparison of two datetimes: by year, month, day and time of day, in this order.\<close>

definition datetime_le :: "datetime \<Rightarrow> datetime \<Rightarrow> bool" where
  "datetime_le a b =
     (year a < year b \<or> (year a = year b \<and>
       (month a < month b \<or> (month a = month b \<and>
         (day a < day b \<or> (day a = day b \<and> usec a \<le> usec b))))))"

section \<open>Python values\<close>

text \<open>
  The values a tag can hold, with Python's truth value and Python's \<open>== 0\<close>
  (\<open>False == 0\<close> and \<open>0.0 == 0\<close> are true in Python).
\<close>

datatype pyval = PNone | PBool bool | PInt int | PFloat real | PStr string | PList "pyval list"

fun truthy :: "pyval \<Rightarrow> bool" where
  "truthy PNone = False"
| "truthy (PBool b) = b"
| "truthy (PInt n) = (n \<noteq> 0)"
| "truthy (PFloat x) = (x \<noteq> 0)"
| "truthy (PStr s) = (s \<noteq> [])"
| "truthy (PList xs) = (xs \<noteq> [])"

fun eq_zero :: "pyval \<Rightarrow> bool" where
  "eq_zero PNone = False"
| "eq_zero (PBool b) = (\<not> b)"
| "eq_zero (PInt n) = (n = 0)"
| "eq_zero (PFloat x) = (x = 0)"
| "eq_zero (PStr s) = False"
| "eq_zero (PList xs) = False"

fun and_then :: "error + 'a \<Rightarrow> ('a \<Rightarrow> error + 'b) \<Rightarrow> error + 'b" where
  "and_then (Inl e) f = Inl e"
| "and_then (Inr v) f = f v"

fun map_err :: "('a \<Rightarrow> error + 'b) \<Rightarrow> 'a list \<Rightarrow> error + 'b list" where
  "map_err f [] = Inr []"
| "map_err f (x # xs) =
     and_then (f x) (\<lambda>y. and_then (map_err f xs) (\<lambda>ys. Inr (y # ys)))"

text \<open>
  Uses of a value as a string, a number, an index or a sequence. A method of \<open>str\<close> on a
  value that is no string raises \<open>AttributeError\<close>; arithmetic or indexing with a value
  of the wrong type raises \<open>TypeError\<close>. Iterating over a string yields its characters.
\<close>

fun as_str :: "pyval \<Rightarrow> error + string" where
  "as_str (PStr s) = Inr s"
| "as_str v = Inl AttributeError"

fun as_real :: "pyval \<Rightarrow> error + real" where
  "as_real (PFloat x) = Inr x"
| "as_real (PInt n) = Inr (of_int n)"
| "as_real (PBool b) = Inr (if b then 1 else 0)"
| "as_real v = Inl TypeError"

fun as_index :: "pyval \<Rightarrow> error + int" where
  "as_index (PInt n) = Inr n"
| "as_index (PBool b) = Inr (if b then 1 else 0)"
| "as_index v = Inl TypeError"


text \<open>\<open>xs[i]\<close> on a list: a negative index counts from the end.\<close>

definition py_index :: "'a list \<Rightarrow> int \<Rightarrow> error + 'a" where
  "py_index xs i =
     (if 0 \<le> i \<and> i < int (length xs) then Inr (xs ! nat i)
      else if i < 0 \<and> - int (length xs) \<le> i then Inr (xs ! nat (int (length xs) + i))
      else Inl IndexError)"

text \<open>\<open>int(v)\<close>: a string is parsed, a float is truncated towards zero.\<close>

fun int_of :: "pyval \<Rightarrow> error + int" where
  "int_of (PStr s) = py_int s"
| "int_of (PInt n) = Inr n"
| "int_of (PBool b) = Inr (if b then 1 else 0)"
| "int_of (PFloat x) = Inr (if 0 \<le> x then \<lfloor>x\<rfloor> else \<lceil>x\<rceil>)"
| "int_of v = Inl TypeError"

text \<open>\<open>names.index(v)\<close>: the first position of \<open>v\<close>, \<open>ValueError\<close> when it is absent.\<close>

fun index_from :: "nat \<Rightarrow> string list \<Rightarrow> string \<Rightarrow> error + int" where
  "index_from i [] s = Inl ValueError"
| "index_from i (n # ns) s = (if n = s then Inr (int i) else index_from (Suc i) ns s)"

fun list_index :: "string list \<Rightarrow> pyval \<Rightarrow> error + int" where
  "list_index names (PStr s) = index_from 0 names s"
| "list_index names v = Inl ValueError"

section \<open>The tagged table: \<open>MyTCSV\<close>\<close>

text \<open>
  \<open>tags\<close> is a Python dictionary; its keys keep the order of their first insertion, and
  the order matters when the tags are transformed one after the other. It is an
  association list: \<open>dict_set\<close> overwrites in place or appends.
\<close>

type_synonym tagdict = "(string \<times> pyval) list"

definition dict_get :: "tagdict \<Rightarrow> string \<Rightarrow> error + pyval" where
  "dict_get d k = (case map_of d k of None \<Rightarrow> Inl KeyError | Some v \<Rightarrow> Inr v)"

fun dict_set :: "tagdict \<Rightarrow> string \<Rightarrow> pyval \<Rightarrow> tagdict" where
  "dict_set [] k v = [(k, v)]"
| "dict_set ((k', v') # d) k v = (if k' = k then (k, v) # d else (k', v') # dict_set d k v)"

text \<open>
  A cell of the loaded table: text, a number or a date, as the row hooks leave it.
\<close>

datatype cell = CStr string | CFloat real | CDate datetime

definition TAG_DELIMITER :: string where "TAG_DELIMITER = ''delimiter''"
definition TAG_HAS_HEADER :: string where "TAG_HAS_HEADER = ''has_header''"
definition TAG_DECIMAL :: string where "TAG_DECIMAL = ''decimal_point''"
definition TAG_QUOTE :: string where "TAG_QUOTE = ''quote''"
definition TAG_DATE_FIELD :: string where "TAG_DATE_FIELD = ''date_field''"
definition TAG_DATE_FORMAT :: string where "TAG_DATE_FORMAT = ''date_format''"
definition TAG_DOY_FILE :: string where "TAG_DOY_FILE = ''doy_tif_filepath''"
definition TAG_DAY_FACTOR :: string where "TAG_DAY_FACTOR = ''doy_factor''"
definition TAG_X_FIELD :: string where "TAG_X_FIELD = ''x_field''"
definition TAG_Y_FIELD :: string where "TAG_Y_FIELD = ''y_field''"
definition TAG_PROJ_WKT :: string where "TAG_PROJ_WKT = ''projection_wkt''"
definition TAG_FROM_DT_FIELD :: string where "TAG_FROM_DT_FIELD = ''from_date_field''"
definition TAG_TO_DT_FIELD :: string where "TAG_TO_DT_FIELD = ''to_date_field''"
definition TAG_CLASS_FIELD :: string where "TAG_CLASS_FIELD = ''class_field''"
definition TAG_TIMELINE_FILE :: string where "TAG_TIMELINE_FILE = ''timeline_filepath''"
definition TAG_BANDS_PATHS :: string where "TAG_BANDS_PATHS = ''bands_filepaths''"
definition TAG_BANDS_FACTORS :: string where "TAG_BANDS_FACTORS = ''bands_factors''"

text \<open>
  The object: \<open>file_lines\<close> holds the lines of \<open>file\<close> not read yet, \<open>row\<close> is \<open>__row__\<close> (\<open>None\<close> until
  a line is read), \<open>data\<close> the columns loaded by \<open>fetch_data\<close>.
\<close>

record mytcsv =
  file_lines :: "string list"
  row :: "string option"
  data :: "cell list list"
  field_names :: "string list"
  tags :: tagdict

text \<open>
  \<open>get_tag_value\<close>: the stored value; for a missing tag the default when
  \<open>default or default == 0\<close> holds, and \<open>RequiredTagMissing\<close> otherwise.
\<close>

definition get_tag_value :: "'a mytcsv_scheme \<Rightarrow> string \<Rightarrow> pyval \<Rightarrow> error + pyval" where
  "get_tag_value self tag_name dflt =
     (case dict_get (tags self) tag_name of
        Inr v \<Rightarrow> Inr v
      | Inl e \<Rightarrow>
          if truthy dflt \<or> eq_zero dflt then Inr dflt
          else Inl (Exception error_required_tag))"

text \<open>
  \<open>resolve_field_ref\<close>: with a true \<open>has_header\<close> tag, \<open>int(field_ref)\<close> and, when that
  raises \<open>ValueError\<close>, the position of \<open>field_ref\<close> among the field names; otherwise
  \<open>int(field_ref)\<close>.
\<close>

definition resolve_field_ref :: "'a mytcsv_scheme \<Rightarrow> pyval \<Rightarrow> error + int" where
  "resolve_field_ref self field_ref =
     and_then (dict_get (tags self) TAG_HAS_HEADER) (\<lambda>h.
       if truthy h
       then (case int_of field_ref of
               Inl ValueError \<Rightarrow> list_index (field_names self) field_ref
             | r \<Rightarrow> r)
       else int_of field_ref)"

text \<open>
  The three classes and their \<open>__transform_tag_value__\<close> hooks. The hook of \<open>MyTCSV\<close>
  tests its first argument against \<open>'has_header'\<close> and then compares the lower-cased
  first argument with \<open>'true'\<close>. The subclasses pass the tag value as both arguments of
  the inherited hook.
\<close>

datatype klass = MyTCSV | Timeline | Samples

definition transform_tag_value_base :: "pyval \<Rightarrow> pyval \<Rightarrow> error + pyval" where
  "transform_tag_value_base tag_name tag_value =
     (if tag_name = PStr TAG_HAS_HEADER
      then and_then (as_str tag_name) (\<lambda>n. Inr (PBool (py_lower n = ''true'')))
      else Inr tag_value)"

definition to_float_val :: "pyval \<Rightarrow> pyval \<Rightarrow> error + real" where
  "to_float_val v decimal =
     and_then (as_str decimal) (\<lambda>d. and_then (as_str v) (\<lambda>s. to_float s d))"

definition split_list :: "'a mytcsv_scheme \<Rightarrow> string \<Rightarrow> error + string list" where
  "split_list self tag_name =
     and_then (dict_get (tags self) tag_name) (\<lambda>v.
     and_then (as_str v) (\<lambda>s.
     and_then (py_split (py_strip s) '','') (\<lambda>parts. Inr (map py_strip parts))))"

definition transform_tag_value ::
  "klass \<Rightarrow> 'a mytcsv_scheme \<Rightarrow> string \<Rightarrow> pyval \<Rightarrow> error + pyval" where
  "transform_tag_value k self tag_name tag_value =
     (case k of
        MyTCSV \<Rightarrow> transform_tag_value_base (PStr tag_name) tag_value
      | Timeline \<Rightarrow>
          if tag_name = TAG_DATE_FIELD
          then and_then (resolve_field_ref self tag_value) (\<lambda>i. Inr (PInt i))
          else if tag_name = TAG_DAY_FACTOR
          then and_then (dict_get (tags self) TAG_DECIMAL) (\<lambda>d.
               and_then (to_float_val tag_value d) (\<lambda>x. Inr (PFloat x)))
          else transform_tag_value_base tag_value tag_value
      | Samples \<Rightarrow>
          if tag_name = TAG_X_FIELD \<or> tag_name = TAG_Y_FIELD \<or> tag_name = TAG_CLASS_FIELD
             \<or> tag_name = TAG_FROM_DT_FIELD \<or> tag_name = TAG_TO_DT_FIELD
          then and_then (resolve_field_ref self tag_value) (\<lambda>i. Inr (PInt i))
          else if tag_name = TAG_BANDS_PATHS
          then and_then (split_list self TAG_BANDS_PATHS) (\<lambda>ps. Inr (PList (map PStr ps)))
          else if tag_name = TAG_BANDS_FACTORS
          then and_then (split_list self TAG_BANDS_FACTORS) (\<lambda>ps.
               and_then (dict_get (tags self) TAG_DECIMAL) (\<lambda>d.
               and_then (map_err (\<lambda>p. to_float_val (PStr p) d) ps) (\<lambda>xs.
                 Inr (PList (map PFloat xs)))))
          else transform_tag_value_base tag_value tag_value)"

text \<open>
  \<open>__fetch_tags__\<close>: every leading line \<open>#name=value\<close> stores a raw tag; a line starting
  with \<open>#\<close> without \<open>=\<close> is skipped; the first other line ends the loop and stays in
  \<open>__row__\<close>. Indexing an empty line raises \<open>IndexError\<close>.
\<close>

fun fetch_tags :: "string list \<Rightarrow> string option \<Rightarrow> tagdict \<Rightarrow> error + string list \<times> string option \<times> tagdict" where
  "fetch_tags [] r d = Inr ([], r, d)"
| "fetch_tags (l # ls) r d =
     (let s = py_strip l
      in case s of
           [] \<Rightarrow> Inl IndexError
         | c # cs \<Rightarrow>
             if c = CHR ''#''
             then (case py_find s CHR ''='' 1 of
                     Some i \<Rightarrow>
                       fetch_tags ls (Some s)
                         (dict_set d (py_strip (take (i - 1) (drop 1 s)))
                                     (PStr (py_strip (drop (i + 1) s))))
                   | None \<Rightarrow> fetch_tags ls (Some s) d)
             else Inr (ls, Some s, d))"

text \<open>The loop of \<open>__prepare_data_fetch__\<close> over the tags, in the order of the keys.\<close>

fun transform_tags :: "klass \<Rightarrow> mytcsv \<Rightarrow> (string \<times> pyval) list \<Rightarrow> error + mytcsv" where
  "transform_tags k self [] = Inr self"
| "transform_tags k self ((key, v) # items) =
     and_then (transform_tag_value k self key v) (\<lambda>v'.
       transform_tags k (self\<lparr>tags := dict_set (tags self) key v'\<rparr>) items)"

definition prepare_data_fetch :: "klass \<Rightarrow> mytcsv \<Rightarrow> error + mytcsv" where
  "prepare_data_fetch k self =
     (case row self of
        None \<Rightarrow> Inl AttributeError
      | Some r \<Rightarrow>
          and_then (dict_get (tags self) TAG_DELIMITER) (\<lambda>dv.
          and_then (as_str dv) (\<lambda>delim.
          and_then (py_split r delim) (\<lambda>cells.
          and_then (dict_get (tags self) TAG_HAS_HEADER) (\<lambda>hv.
          and_then (as_str hv) (\<lambda>h.
          and_then
            (if py_lower h = ''true''
             then and_then (dict_get (tags self) TAG_QUOTE) (\<lambda>qv.
                  and_then (as_str qv) (\<lambda>q.
                    Inr (self\<lparr> field_names :=
                                 field_names self @ map (\<lambda>v. py_strip_chars (py_strip v) q) cells,
                               row := (case file_lines self of [] \<Rightarrow> Some [] | l # ls \<Rightarrow> Some l),
                               file_lines := (case file_lines self of [] \<Rightarrow> [] | l # ls \<Rightarrow> ls) \<rparr>)))
             else Inr self)
            (\<lambda>self'. transform_tags k self' (tags self'))))))))"

text \<open>
  \<open>MyTCSV.__init__\<close> with the default arguments; \<open>open_file\<close> is the file system (the
  lines of the named file, \<open>None\<close> when it cannot be opened).
\<close>

definition set_default :: "mytcsv \<Rightarrow> string \<Rightarrow> pyval \<Rightarrow> error + mytcsv" where
  "set_default self tag_name dflt =
     and_then (get_tag_value self tag_name dflt) (\<lambda>v.
       Inr (self\<lparr>tags := dict_set (tags self) tag_name v\<rparr>))"

definition MyTCSV_init :: "klass \<Rightarrow> (string \<Rightarrow> string list option) \<Rightarrow> string \<Rightarrow> error + mytcsv" where
  "MyTCSV_init k open_file filename =
     (case open_file filename of
        None \<Rightarrow> Inl FileNotFoundError
      | Some ls \<Rightarrow>
          and_then (fetch_tags ls None []) (\<lambda>(rest, r, d).
          and_then (set_default \<lparr> file_lines = rest, row = r, data = [], field_names = [], tags = d \<rparr>
                                TAG_DELIMITER (PStr '','')) (\<lambda>s1.
          and_then (set_default s1 TAG_HAS_HEADER (PStr ''False'')) (\<lambda>s2.
          and_then (set_default s2 TAG_DECIMAL (PStr ''.'')) (\<lambda>s3.
          and_then (set_default s3 TAG_QUOTE (PStr [CHR 0x22])) (\<lambda>s4.
            prepare_data_fetch k s4))))))"

section \<open>Rasters read pixel by pixel\<close>

text \<open>
  \<open>read_pixel_values\<close>: the values of all bands at one pixel, one entry per band.
  Comparisons and products of one-dimensional arrays are element-wise; numpy stretches
  an array of length one to the length of the other and raises \<open>ValueError\<close> for other
  lengths that differ. Selecting with a boolean mask needs a mask as long as the array
  and raises \<open>IndexError\<close> otherwise.
\<close>

definition read_pixel_values :: "mygdal \<Rightarrow> int \<times> int \<Rightarrow> real list" where
  "read_pixel_values m pixel =
     map (\<lambda>b. BandValue (dataset m) b (fst pixel) (snd pixel))
         [1 ..< RasterCount (dataset m) + 1]"

definition broadcast2 :: "('a \<Rightarrow> 'b \<Rightarrow> 'c) \<Rightarrow> 'a list \<Rightarrow> 'b list \<Rightarrow> error + 'c list" where
  "broadcast2 f xs ys =
     (if length xs = length ys then Inr (map (\<lambda>(x, y). f x y) (zip xs ys))
      else if length xs = 1 then Inr (map (\<lambda>y. f (hd xs) y) ys)
      else if length ys = 1 then Inr (map (\<lambda>x. f x (hd ys)) xs)
      else Inl ValueError)"

definition select :: "'a list \<Rightarrow> bool list \<Rightarrow> error + 'a list" where
  "select xs keep =
     (if length xs = length keep then Inr (map fst (filter snd (zip xs keep)))
      else Inl IndexError)"

definition mask_nodata_pixel_bands :: "mygdal \<Rightarrow> real list \<Rightarrow> error + bool list" where
  "mask_nodata_pixel_bands m pixel_bands =
     broadcast2 (\<lambda>v nd. nd \<noteq> Some v) pixel_bands (values_nodata m)"

text \<open>
  \<open>reproject_geolocs_from\<close>: the points themselves when the reference systems are
  textually equal, otherwise the first two coordinates of the transformed points.
\<close>

definition reproject_geolocs_from :: "mygdal \<Rightarrow> (real \<times> real) list \<Rightarrow> string \<Rightarrow> (real \<times> real) list" where
  "reproject_geolocs_from m geolocs geo_srs_wkt_from =
     (if srs_wkt m = geo_srs_wkt_from then geolocs
      else map (\<lambda>(x, y, z). (x, y)) (TransformPoints (dataset m) geo_srs_wkt_from geolocs))"

section \<open>\<open>Timeline\<close>\<close>

record timeline = mytcsv +
  doy_stack :: mygdal



text \<open>
  A column of the loaded table, found through the tag that holds its index. The columns
  that hold dates hold \<open>datetime\<close> values (the row hooks store them so); a cell of another
  kind has no \<open>year\<close> and cannot be compared with a date.
\<close>

definition column :: "'a mytcsv_scheme \<Rightarrow> string \<Rightarrow> error + cell list" where
  "column self tag_name =
     and_then (dict_get (tags self) tag_name) (\<lambda>v.
     and_then (as_index v) (\<lambda>i. py_index (data self) i))"

fun as_date :: "cell \<Rightarrow> error + datetime" where
  "as_date (CDate d) = Inr d"
| "as_date c = Inl AttributeError"

fun as_float :: "cell \<Rightarrow> error + real" where
  "as_float (CFloat x) = Inr x"
| "as_float c = Inl TypeError"

fun truthy_cell :: "cell \<Rightarrow> bool" where
  "truthy_cell (CStr s) = (s \<noteq> [])"
| "truthy_cell (CFloat x) = (x \<noteq> 0)"
| "truthy_cell (CDate d) = True"

text \<open>
  \<open>read_pixel_dates\<close>: for every row, January 1 of the year of the row's date plus
  \<open>doy * doy_factor\<close> days where the day-of-year value is not the no-data value, and the
  row's own date where it is. A count of values that differs from the count of rows
  raises the exception built from \<open>__error_time_line_length__\<close>.
\<close>

definition resolve_date :: "'a timeline_scheme \<Rightarrow> datetime \<Rightarrow> real \<Rightarrow> bool \<Rightarrow> error + datetime" where
  "resolve_date self d doy valid =
     (if valid
      then and_then (dict_get (tags self) TAG_DAY_FACTOR) (\<lambda>fv.
           and_then (as_real fv) (\<lambda>f.
           and_then (timedelta_days (doy * f)) (\<lambda>delta.
             datetime_add \<lparr> year = year d, month = 1, day = 1, usec = 0 \<rparr> delta)))
      else Inr d)"

definition read_pixel_dates :: "'a timeline_scheme \<Rightarrow> int \<times> int \<Rightarrow> error + datetime list" where
  "read_pixel_dates self pixel =
     (let doys = read_pixel_values (doy_stack self) pixel
      in and_then (mask_nodata_pixel_bands (doy_stack self) doys) (\<lambda>mask_nodata.
         and_then (column self TAG_DATE_FIELD) (\<lambda>col.
         and_then (map_err as_date col) (\<lambda>dates.
           if length doys \<noteq> length dates
           then Inl (Exception error_time_line_length)
           else map_err (\<lambda>i. and_then (py_index mask_nodata (int i)) (\<lambda>valid.
                                resolve_date self (dates ! i) (doys ! i) valid))
                        [0 ..< length dates]))))"

section \<open>\<open>Samples\<close>\<close>

record samples = mytcsv +
  timeline :: timeline
  bands :: "mygdal list"
  bands_factor :: "pyval list"



definition read_samples_geolocs :: "'a samples_scheme \<Rightarrow> int list option \<Rightarrow> error + (real \<times> real) list" where
  "read_samples_geolocs self samples_index =
     and_then (column self TAG_X_FIELD) (\<lambda>xcol.
     and_then (column self TAG_Y_FIELD) (\<lambda>ycol.
     and_then (case samples_index of
                 None \<Rightarrow> Inr xcol | Some idx \<Rightarrow> map_err (py_index xcol) idx) (\<lambda>x_result.
     and_then (case samples_index of
                 None \<Rightarrow> Inr ycol | Some idx \<Rightarrow> map_err (py_index ycol) idx) (\<lambda>y_result.
     and_then (map_err as_float x_result) (\<lambda>xs.
     and_then (map_err as_float y_result) (\<lambda>ys.
       if length xs = length ys then Inr (zip xs ys) else Inl ValueError))))))"

definition reproject_samples_to :: "'a samples_scheme \<Rightarrow> mygdal \<Rightarrow> int list option \<Rightarrow> error + (real \<times> real) list" where
  "reproject_samples_to self mygdal_obj samples_index =
     and_then (read_samples_geolocs self samples_index) (\<lambda>geolocs.
     and_then (dict_get (tags self) TAG_PROJ_WKT) (\<lambda>wv.
     and_then (as_str wv) (\<lambda>wkt.
       Inr (reproject_geolocs_from mygdal_obj geolocs wkt))))"

text \<open>
  \<open>get_samples_timeseries\<close>. For sample \<open>i\<close> the source reads \<open>date_from\<close> and \<open>date_to\<close>
  from the same column, the one named by the tag \<open>from_date_field\<close>, at position \<open>i\<close>.
  A datetime never equals a number or \<open>None\<close>, so the comparison of the dates with the
  no-data values of the day-of-year raster is true at every position.
\<close>

definition compare_dates :: "(datetime \<Rightarrow> datetime \<Rightarrow> bool) \<Rightarrow> datetime list \<Rightarrow> cell \<Rightarrow> error + bool list" where
  "compare_dates rel dates bound =
     (case bound of
        CDate b \<Rightarrow> Inr (map (\<lambda>d. rel d b) dates)
      | _ \<Rightarrow> if dates = [] then Inr [] else Inl TypeError)"

definition filter_interval :: "datetime list \<Rightarrow> cell \<Rightarrow> cell \<Rightarrow> bool list \<Rightarrow> error + bool list" where
  "filter_interval pixel_dates date_from date_to keep =
     (if truthy_cell date_from \<and> truthy_cell date_to
      then and_then (compare_dates (\<lambda>d b. datetime_le b d) pixel_dates date_from) (\<lambda>ge.
           and_then (broadcast2 (\<and>) keep ge) (\<lambda>m1.
           and_then (compare_dates datetime_le pixel_dates date_to) (\<lambda>le.
             broadcast2 (\<and>) m1 le)))
      else if truthy_cell date_from
      then and_then (compare_dates (\<lambda>d b. datetime_le b d) pixel_dates date_from) (\<lambda>ge.
             broadcast2 (\<and>) keep ge)
      else if truthy_cell date_to
      then and_then (compare_dates datetime_le pixel_dates date_to) (\<lambda>le.
             broadcast2 (\<and>) keep le)
      else Inr keep)"

definition band_timeseries ::
  "'a samples_scheme \<Rightarrow> bool \<Rightarrow> cell \<Rightarrow> cell \<Rightarrow> int \<times> int \<Rightarrow> datetime list \<Rightarrow> nat
     \<Rightarrow> error + real list \<times> datetime list" where
  "band_timeseries self filter_sample_interval date_from date_to pixel pixel_dates j =
     (let band = bands self ! j;
          pixel_values = read_pixel_values band pixel
      in and_then (broadcast2 (\<lambda>d nd. True) pixel_dates
                     (values_nodata (doy_stack (timeline self)))) (\<lambda>m1.
         and_then (broadcast2 (\<lambda>v nd. nd \<noteq> Some v) pixel_values (values_nodata band)) (\<lambda>m2.
         and_then (broadcast2 (\<and>) m1 m2) (\<lambda>mask0.
         and_then (if filter_sample_interval
                   then filter_interval pixel_dates date_from date_to mask0
                   else Inr mask0) (\<lambda>mask.
         and_then (select pixel_values mask) (\<lambda>vals.
         and_then (py_index (bands_factor self) (int j)) (\<lambda>fv.
         and_then (as_real fv) (\<lambda>f.
         and_then (select pixel_dates mask) (\<lambda>dts.
           Inr (map (\<lambda>v. v * f) vals, dts))))))))))"

definition sample_timeseries ::
  "'a samples_scheme \<Rightarrow> bool \<Rightarrow> nat \<Rightarrow> int \<times> int \<Rightarrow> error + (real list \<times> datetime list) list" where
  "sample_timeseries self filter_sample_interval i pixel =
     and_then (column self TAG_FROM_DT_FIELD) (\<lambda>col_from.
     and_then (py_index col_from (int i)) (\<lambda>date_from.
     and_then (column self TAG_FROM_DT_FIELD) (\<lambda>col_to.
     and_then (py_index col_to (int i)) (\<lambda>date_to.
     and_then (read_pixel_dates (timeline self) pixel) (\<lambda>pixel_dates.
       map_err (band_timeseries self filter_sample_interval date_from date_to pixel pixel_dates)
               [0 ..< length (bands self)])))))"

definition get_samples_timeseries ::
  "'a samples_scheme \<Rightarrow> int list option \<Rightarrow> bool \<Rightarrow> error + (real list \<times> datetime list) list list" where
  "get_samples_timeseries self samples_index filter_sample_interval =
     and_then (reproject_samples_to self (doy_stack (timeline self)) samples_index) (\<lambda>geolocs.
       case geolocs_to_pixels (doy_stack (timeline self)) (Some (Rows geolocs)) of
         Rows samples_pixels \<Rightarrow>
           map_err (\<lambda>i. sample_timeseries self filter_sample_interval i (samples_pixels ! i))
                   [0 ..< length samples_pixels]
       | Row p \<Rightarrow> Inl TypeError)"

section \<open>Example inputs\<close>

text \<open>
  Two rasters with one band of two by two and ten by ten pixels. The first has resolution
  and skew 1 on both axes; the second is a north-up raster without skew. All coefficients
  are small integers, which float64 represents exactly.
\<close>

definition skewed_dataset :: dataset where
  "skewed_dataset = \<lparr> ProjectionRef = ''LOCAL'', RasterXSize = 2, RasterYSize = 2,
     GeoTransform = [0, 1, 1, 0, 1, 1], RasterCount = 1,
     NoDataValue = (\<lambda>i. None), BandValue = (\<lambda>b x y. 0),
     TransformPoints = (\<lambda>w ps. map (\<lambda>(x, y). (x, y, 0)) ps) \<rparr>"

definition skewed_raster :: mygdal where
  "skewed_raster = \<lparr> dataset = skewed_dataset, srs_wkt = ''LOCAL'', width = 2, height = 2,
     geo_resolution = (1, 1), geo_skew = (1, 1), geo_ul = (0, 0), geo_lr = (2, 2),
     values_nodata = [None] \<rparr>"

definition north_up_dataset :: dataset where
  "north_up_dataset = \<lparr> ProjectionRef = ''LOCAL'', RasterXSize = 10, RasterYSize = 10,
     GeoTransform = [0, 1, 0, 10, 0, - 1], RasterCount = 1,
     NoDataValue = (\<lambda>i. None), BandValue = (\<lambda>b x y. 0),
     TransformPoints = (\<lambda>w ps. map (\<lambda>(x, y). (x, y, 0)) ps) \<rparr>"

definition north_up_raster :: mygdal where
  "north_up_raster = \<lparr> dataset = north_up_dataset, srs_wkt = ''LOCAL'', width = 10, height = 10,
     geo_resolution = (1, - 1), geo_skew = (0, 0), geo_ul = (0, 10), geo_lr = (9, 1),
     values_nodata = [None] \<rparr>"

text \<open>A table without tags, fields or rows.\<close>

definition empty_table :: mytcsv where
  "empty_table = \<lparr> file_lines = [], row = None, data = [], field_names = [], tags = [] \<rparr>"

text \<open>
  A file system with a table that has a header, the same table without the
  \<open>has_header\<close> tag, two sample tables that name two band rasters with one and with two
  factors, and a timeline of one row. Every raster path opens the north-up dataset.
\<close>

definition example_files :: "string \<Rightarrow> string list option" where
  "example_files name =
     (if name = ''header.csv'' then Some [''#has_header=true'', ''a,b'', ''1,2'']
      else if name = ''plain.csv'' then Some [''a,b'', ''1,2'']
      else if name = ''samples.csv''
      then Some [''#timeline_filepath=tl.csv'', ''#bands_filepaths=a.tif,b.tif'',
                 ''#bands_factors=1.0'', ''0,0'']
      else if name = ''samples2.csv''
      then Some [''#timeline_filepath=tl.csv'', ''#bands_filepaths=a.tif,b.tif'',
                 ''#bands_factors=1.0,0.5'', ''0,0'']
      else if name = ''tl.csv'' then Some [''2020-01-01'']
      else None)"


section \<open>The geo-reference: conversions and bound checks\<close>

lemmas GT_defs = GT_X_def GT_Y_def GT_X_UL_def GT_X_RES_def GT_X_SKEW_def GT_Y_UL_def
  GT_Y_SKEW_def GT_Y_RES_def

lemma skewed_raster_init:
  "Mygdal_init (\<lambda>f. Some skewed_dataset) ''skewed.tif'' = Inr skewed_raster"
  by (simp add: Mygdal_init_def skewed_raster_def Let_def ord_pair_def GT_defs
        pixels_to_geolocs_of_def skewed_dataset_def)

lemma north_up_raster_init:
  "Mygdal_init (\<lambda>f. Some north_up_dataset) ''north.tif'' = Inr north_up_raster"
  by (simp add: Mygdal_init_def north_up_raster_def Let_def ord_pair_def GT_defs
        pixels_to_geolocs_of_def north_up_dataset_def)

lemma Mygdal_init_fields:
  assumes "gdal_Open filename = Some ds" "Mygdal_init gdal_Open filename = Inr m"
  shows "geo_ul m = (GeoTransform ds ! GT_X_UL, GeoTransform ds ! GT_Y_UL)"
    and "geo_resolution m = (GeoTransform ds ! GT_X_RES, GeoTransform ds ! GT_Y_RES)"
    and "geo_skew m = (GeoTransform ds ! GT_Y_SKEW, GeoTransform ds ! GT_X_SKEW)"
  using assms by (auto simp: Mygdal_init_def Let_def ord_pair_def)

text \<open>
  C2. For a raster opened from a dataset, \<open>pixels_to_geolocs\<close> maps every pixel \<open>(x, y)\<close>
  of a non-empty sequence to origin + resolution * pixel + skew * pixel per axis, where
  the X output takes the Y-skew coefficient of the geotransform and the Y output the
  X-skew coefficient; an empty sequence and \<open>None\<close> give the empty array. (Arithmetic is
  exact; the expression is the one the source evaluates in float64.)
\<close>

theorem pixels_to_geolocs_formula:
  assumes "gdal_Open filename = Some ds" and "Mygdal_init gdal_Open filename = Inr m"
  shows "(ps \<noteq> [] \<longrightarrow>
            pixels_to_geolocs m (Some (Rows ps)) =
              Rows (map (\<lambda>(x, y).
                      (GeoTransform ds ! GT_X_UL + GeoTransform ds ! GT_X_RES * of_int x
                         + GeoTransform ds ! GT_Y_SKEW * of_int x,
                       GeoTransform ds ! GT_Y_UL + GeoTransform ds ! GT_Y_RES * of_int y
                         + GeoTransform ds ! GT_X_SKEW * of_int y)) ps))
       \<and> pixels_to_geolocs m (Some (Rows [])) = Rows []
       \<and> pixels_to_geolocs m None = Rows []"
  using Mygdal_init_fields[OF assms]
  by (auto simp: pixels_to_geolocs_def pixels_to_geolocs_of_def)

theorem pixels_to_geolocs_formula_witness:
  "Mygdal_init (\<lambda>f. Some skewed_dataset) ''skewed.tif'' = Inr skewed_raster
   \<and> pixels_to_geolocs skewed_raster (Some (Rows [(1, 0), (0, 1)])) = Rows [(2, 0), (0, 2)]
   \<and> pixels_to_geolocs skewed_raster (Some (Rows [])) = Rows []
   \<and> pixels_to_geolocs skewed_raster None = Rows []"
  using pixels_to_geolocs_formula[of "\<lambda>f. Some skewed_dataset" "''skewed.tif''" skewed_dataset
          skewed_raster "[(1, 0), (0, 1)]"] skewed_raster_init
  by (simp add: skewed_dataset_def GT_defs)






text \<open>
  No coordinate is below zero and above the size at once, so \<open>are_valid_pixels\<close> is
  false for every array of pixels of a raster of non-negative size.
\<close>

lemma are_valid_pixels_never:
  assumes "0 \<le> width m" and "0 \<le> height m"
  shows "are_valid_pixels m pixels = False"
proof (cases pixels)
  case (Row p)
  then show ?thesis using assms
    by (cases p) (auto simp: are_valid_pixels_def numpy_any_def)
next
  case (Rows ps)
  then show ?thesis using assms
    by (auto simp: are_valid_pixels_def numpy_any_def list_ex_iff)
qed

text \<open>
  C6, the code at points outside the box. In the ten by ten north-up raster the pixels
  \<open>(-1, 0)\<close> and \<open>(3, 25)\<close> and the geolocation \<open>(-5, 5)\<close> lie outside the extent, and
  both checks answer false for them.
\<close>

theorem are_valid_misses_outside_points:
  "Mygdal_init (\<lambda>f. Some north_up_dataset) ''north.tif'' = Inr north_up_raster
   \<and> are_valid_pixels north_up_raster (Rows [(- 1, 0)]) = False
   \<and> are_valid_pixels north_up_raster (Rows [(3, 25)]) = False
   \<and> are_valid_geolocs north_up_raster (Rows [(- 5, 5)]) = False"
  using north_up_raster_init
  by (simp add: are_valid_pixels_def are_valid_geolocs_def numpy_any_def north_up_raster_def)

section \<open>Tags and numbers from text\<close>

text \<open>
  C8, as amended. A stored tag is returned. For a missing tag \<open>get_tag_value\<close> raises
  \<open>RequiredTagMissing\<close> exactly when the default is falsy and does not compare equal to 0,
  and returns the default otherwise. The falsy values that do not compare equal to 0 are
  \<open>None\<close>, the empty string and the empty list; \<open>False\<close> and \<open>0.0\<close> compare equal to 0 and
  are returned like the integer 0.
\<close>

theorem get_tag_value_cases:
  "(map_of (tags self) n = Some v \<longrightarrow> get_tag_value self n d = Inr v)
   \<and> (map_of (tags self) n = None \<longrightarrow>
        (get_tag_value self n d = Inl (Exception error_required_tag)
           \<longleftrightarrow> \<not> truthy d \<and> \<not> eq_zero d)
        \<and> (truthy d \<or> eq_zero d \<longrightarrow> get_tag_value self n d = Inr d))
   \<and> ((\<not> truthy d \<and> \<not> eq_zero d) \<longleftrightarrow> d = PNone \<or> d = PStr [] \<or> d = PList [])"
  by (cases d) (auto simp: get_tag_value_def dict_get_def)

theorem get_tag_value_cases_witness:
  "get_tag_value (empty_table\<lparr>tags := [(''quote'', PStr ''x'')]\<rparr>) ''quote'' PNone
     = Inr (PStr ''x'')
   \<and> get_tag_value empty_table ''quote'' PNone = Inl (Exception error_required_tag)
   \<and> get_tag_value empty_table ''quote'' (PInt 0) = Inr (PInt 0)
   \<and> get_tag_value empty_table ''quote'' (PFloat 0) = Inr (PFloat 0)"
  using get_tag_value_cases[of "empty_table\<lparr>tags := [(''quote'', PStr ''x'')]\<rparr>" "''quote''"
          "PStr ''x''" PNone]
        get_tag_value_cases[of empty_table "''quote''" undefined PNone]
        get_tag_value_cases[of empty_table "''quote''" undefined "PInt 0"]
        get_tag_value_cases[of empty_table "''quote''" undefined "PFloat 0"]
  by (simp add: empty_table_def)

text \<open>
  C8 as stated fails for the default \<open>False\<close>: it is falsy and is not the integer 0, and
  it is returned for a missing tag.
\<close>

theorem get_tag_value_False_counterexample:
  "map_of (tags empty_table) ''has_header'' = None
   \<and> \<not> truthy (PBool False) \<and> PBool False \<noteq> PInt 0
   \<and> get_tag_value empty_table ''has_header'' (PBool False) = Inr (PBool False)
   \<and> get_tag_value empty_table ''has_header'' (PBool False)
       \<noteq> Inl (Exception error_required_tag)"
  by (simp add: empty_table_def get_tag_value_def dict_get_def)

lemmas py_float_defs = py_float_def split_sign_def py_strip_def strip_with_def is_space_def
  split_at_char_def is_digit_def digit_val_def digits_value_def scale10_def

text \<open>
  C10. \<open>to_float\<close> gives what \<open>float\<close> gives on the unchanged string, whatever the
  decimal separator: the substituted string is dropped. So \<open>1,5\<close> with the separator
  \<open>,\<close> raises \<open>ValueError\<close>, although the substitution yields \<open>1.5\<close>, which parses to 1.5.
\<close>

theorem to_float_ignores_decimal:
  "to_float v d = py_float v
   \<and> to_float ''1,5'' '','' = Inl ValueError
   \<and> py_replace ''1,5'' '','' ''.'' = ''1.5''
   \<and> py_float ''1.5'' = Inr (3 / 2)"
  by (simp add: to_float_def py_replace_def py_float_defs)

theorem to_float_ignores_decimal_witness:
  "to_float ''2,25'' '','' = py_float ''2,25'' \<and> py_float ''2,25'' = Inl ValueError"
  using to_float_ignores_decimal[of "''2,25''" "'',''"]
  by (simp add: py_float_defs)

section \<open>Construction of tables\<close>

lemmas string_defs = py_split_def py_strip_def strip_with_def is_space_def py_find_def
  py_lower_def lower_char_def py_strip_chars_def

lemmas tag_defs = TAG_DELIMITER_def TAG_HAS_HEADER_def TAG_DECIMAL_def TAG_QUOTE_def
  TAG_DATE_FIELD_def TAG_DATE_FORMAT_def TAG_DOY_FILE_def TAG_DAY_FACTOR_def TAG_X_FIELD_def
  TAG_Y_FIELD_def TAG_PROJ_WKT_def TAG_FROM_DT_FIELD_def TAG_TO_DT_FIELD_def TAG_CLASS_FIELD_def
  TAG_TIMELINE_FILE_def TAG_BANDS_PATHS_def TAG_BANDS_FACTORS_def

lemmas init_defs = MyTCSV_init_def set_default_def get_tag_value_def dict_get_def
  prepare_data_fetch_def transform_tag_value_def transform_tag_value_base_def

lemmas py_int_defs = py_int_def split_sign_def is_digit_def digit_val_def digits_value_def

lemma header_init:
  "MyTCSV_init MyTCSV example_files ''header.csv'' =
     Inr \<lparr> file_lines = [], row = Some ''1,2'', data = [], field_names = [''a'', ''b''],
           tags = [(''has_header'', PBool False), (''delimiter'', PStr '',''),
                   (''decimal_point'', PStr ''.''), (''quote'', PStr [CHR 0x22])] \<rparr>"
  by (simp add: example_files_def init_defs string_defs tag_defs)

lemma header_init_timeline:
  "MyTCSV_init Timeline example_files ''header.csv'' =
     Inr \<lparr> file_lines = [], row = Some ''1,2'', data = [], field_names = [''a'', ''b''],
           tags = [(''has_header'', PStr ''true''), (''delimiter'', PStr '',''),
                   (''decimal_point'', PStr ''.''), (''quote'', PStr [CHR 0x22])] \<rparr>"
  by (simp add: example_files_def init_defs string_defs tag_defs)

lemma plain_init:
  "MyTCSV_init MyTCSV example_files ''plain.csv'' =
     Inr \<lparr> file_lines = [''1,2''], row = Some ''a,b'', data = [], field_names = [],
           tags = [(''delimiter'', PStr '',''), (''has_header'', PBool False),
                   (''decimal_point'', PStr ''.''), (''quote'', PStr [CHR 0x22])] \<rparr>"
  by (simp add: example_files_def init_defs string_defs tag_defs)

text \<open>
  C5, the code on a table with a header. The file \<open>header.csv\<close> carries the tag
  \<open>has_header=true\<close> and the header \<open>a,b\<close>. \<open>MyTCSV\<close> reads the field names \<open>a\<close> and
  \<open>b\<close>, and its tag hook then stores \<open>False\<close> under \<open>has_header\<close>, because it lower-cases
  the tag name, not the tag value. \<open>resolve_field_ref\<close> therefore parses every reference
  as an integer: \<open>b\<close> raises \<open>ValueError\<close>, with the header as without it, and \<open>1\<close> gives 1.
  Under the hook of \<open>Timeline\<close> the tag keeps its text, and \<open>b\<close> resolves to 1.
\<close>

theorem resolve_field_ref_header_lost:
  "and_then (MyTCSV_init MyTCSV example_files ''header.csv'')
     (\<lambda>t. Inr (field_names t, map_of (tags t) TAG_HAS_HEADER))
     = Inr ([''a'', ''b''], Some (PBool False))
   \<and> and_then (MyTCSV_init MyTCSV example_files ''header.csv'')
        (\<lambda>t. resolve_field_ref t (PStr ''b'')) = Inl ValueError
   \<and> and_then (MyTCSV_init MyTCSV example_files ''header.csv'')
        (\<lambda>t. resolve_field_ref t (PStr ''1'')) = Inr 1
   \<and> and_then (MyTCSV_init MyTCSV example_files ''plain.csv'')
        (\<lambda>t. resolve_field_ref t (PStr ''b'')) = Inl ValueError
   \<and> and_then (MyTCSV_init MyTCSV example_files ''plain.csv'')
        (\<lambda>t. resolve_field_ref t (PStr ''1'')) = Inr 1
   \<and> and_then (MyTCSV_init Timeline example_files ''header.csv'')
        (\<lambda>t. resolve_field_ref t (PStr ''b'')) = Inr 1"
  by (simp add: header_init plain_init header_init_timeline resolve_field_ref_def dict_get_def
        tag_defs py_int_defs string_defs)









end
